theory Spec2Isabelle
  imports
    Main
    "HOL-Library.Char_ord"
    "HOL-Library.List_Lexorder"
    "HOL-Library.Product_Lexorder"
begin

section \<open>Identifiers\<close>

text \<open>
  Modelled from the spec: the module \<^verbatim>\<open>./idents\<close> (Ident, Segment, IdentGenerator,
  LSEQIdentGenerator) is imported by \<^verbatim>\<open>Sequence.ts\<close> and \<^verbatim>\<open>Op.ts\<close> and is not among
  the sources. An identifier is a list of segments, a segment a pair of a position and a
  disambiguator (the replica id). Identifiers are compared lexicographically over their
  segments, a strict prefix sorting first: this is the order \<open><\<close> of lists of pairs.
\<close>

type_synonym Segment = "nat \<times> string"

type_synonym Ident = "Segment list"

text \<open>Modelled from the spec: \<^verbatim>\<open>getDepth()\<close>, the number of segments.\<close>

definition Ident_getDepth :: "Ident \<Rightarrow> int" where
  "Ident_getDepth i = int (length i)"

section \<open>JavaScript values and errors\<close>

text \<open>
  The fields of an operation and the values of a sequence are not checked at run time, so
  they are modelled as JavaScript values. \<open>JNum n\<close> is the number \<open>n\<close>, for an integer
  that JavaScript represents exactly (up to \<open>2^53 - 1\<close> in absolute value), \<open>JNaN\<close> the
  number \<^verbatim>\<open>NaN\<close>; other numbers are outside the model.

  The errors: \<open>TypeError\<close> is raised by the language (a property read on \<^verbatim>\<open>undefined\<close>),
  \<open>UnknownOpKind k\<close> is \<^verbatim>\<open>new Error(`Unknown op kind ${k}`)\<close> of \<^verbatim>\<open>Sequence.apply\<close>,
  and \<open>DecodeError\<close> is what the spec has \<^verbatim>\<open>Ident.parse\<close> raise on malformed text.
\<close>

datatype jsval =
    Undefined
  | Null
  | JStr string
  | JNum int
  | JNaN
  | JIdent Ident

datatype error =
    TypeError
  | UnknownOpKind jsval
  | DecodeError

section \<open>Op.ts\<close>

text \<open>\<^verbatim>\<open>enum OpKind { Insert = 1, Remove = 2 }\<close>\<close>

definition OpKind_Insert :: jsval where
  "OpKind_Insert = JNum 1"

definition OpKind_Remove :: jsval where
  "OpKind_Remove = JNum 2"

text \<open>
  An operation object. A RemoveOp has no \<^verbatim>\<open>value\<close> property; reading it gives
  \<^verbatim>\<open>undefined\<close>, which is what \<open>op_value\<close> holds for it.
\<close>

record Op =
  op_kind :: jsval
  op_replica :: jsval
  op_time :: jsval
  op_id :: jsval
  op_value :: jsval

text \<open>
  The constructors \<^verbatim>\<open>InsertOp(replica, time, id, value)\<close> and
  \<^verbatim>\<open>RemoveOp(replica, time, id)\<close>. A call with fewer arguments leaves the missing
  parameters \<^verbatim>\<open>undefined\<close>.
\<close>

definition InsertOp_new :: "jsval \<Rightarrow> jsval \<Rightarrow> jsval \<Rightarrow> jsval \<Rightarrow> Op" where
  "InsertOp_new r t i v =
     \<lparr>op_kind = OpKind_Insert, op_replica = r, op_time = t, op_id = i, op_value = v\<rparr>"

definition RemoveOp_new :: "jsval \<Rightarrow> jsval \<Rightarrow> jsval \<Rightarrow> Op" where
  "RemoveOp_new r t i =
     \<lparr>op_kind = OpKind_Remove, op_replica = r, op_time = t, op_id = i, op_value = Undefined\<rparr>"

text \<open>
  Strings. \<^verbatim>\<open>s.split(':')\<close> cuts at every colon and always gives at least one piece;
  the array destructuring \<^verbatim>\<open>let [a, b, c] = pieces\<close> reads a missing piece as
  \<^verbatim>\<open>undefined\<close>.
\<close>

fun String_split :: "char \<Rightarrow> string \<Rightarrow> string list" where
  "String_split c [] = [[]]"
| "String_split c (x # xs) =
     (if x = c then [] # String_split c xs
      else (case String_split c xs of
              [] \<Rightarrow> [[x]]
            | p # ps \<Rightarrow> (x # p) # ps))"

definition piece :: "string list \<Rightarrow> nat \<Rightarrow> string option" where
  "piece ps n = (if n < length ps then Some (ps ! n) else None)"

definition js_of_piece :: "string option \<Rightarrow> jsval" where
  "js_of_piece p = (case p of None \<Rightarrow> Undefined | Some s \<Rightarrow> JStr s)"

text \<open>Decimal numerals, as JavaScript prints an integral number.\<close>

fun string_of_nat :: "nat \<Rightarrow> string" where
  "string_of_nat n =
     (if n < 10 then [''0123456789'' ! n]
      else string_of_nat (n div 10) @ [''0123456789'' ! (n mod 10)])"

declare string_of_nat.simps [simp del]

definition string_of_int :: "int \<Rightarrow> string" where
  "string_of_int i =
     (if i < 0 then CHR ''-'' # string_of_nat (nat (- i)) else string_of_nat (nat i))"

text \<open>
  The conversion of a template literal, \<^verbatim>\<open>`${v}`\<close>: an object is converted by its own
  \<^verbatim>\<open>toString\<close>, which for an identifier is \<open>T\<close> (\<^verbatim>\<open>Ident.toString\<close>, not among the
  sources).
\<close>

fun js_ToString :: "(Ident \<Rightarrow> string) \<Rightarrow> jsval \<Rightarrow> string" where
  "js_ToString T Undefined = ''undefined''"
| "js_ToString T Null = ''null''"
| "js_ToString T (JStr s) = s"
| "js_ToString T (JNum n) = string_of_int n"
| "js_ToString T JNaN = ''NaN''"
| "js_ToString T (JIdent i) = T i"

text \<open>
  The method call \<^verbatim>\<open>v.toString()\<close>: reading a property of \<^verbatim>\<open>undefined\<close> or
  \<^verbatim>\<open>null\<close> raises a TypeError.
\<close>

fun js_toString_call :: "(Ident \<Rightarrow> string) \<Rightarrow> jsval \<Rightarrow> error + string" where
  "js_toString_call T Undefined = Inl TypeError"
| "js_toString_call T Null = Inl TypeError"
| "js_toString_call T v = Inr (js_ToString T v)"

text \<open>
  \<^verbatim>\<open>InsertOp.toString()\<close> and \<^verbatim>\<open>RemoveOp.toString()\<close>. The parts of the template are
  evaluated from left to right, so a failing \<^verbatim>\<open>this.id.toString()\<close> is raised first.
\<close>

definition InsertOp_toString :: "(Ident \<Rightarrow> string) \<Rightarrow> Op \<Rightarrow> error + string" where
  "InsertOp_toString T op =
     (case js_toString_call T (op_id op) of
        Inl e \<Rightarrow> Inl e
      | Inr i \<Rightarrow>
        (case js_toString_call T (op_value op) of
           Inl e \<Rightarrow> Inl e
         | Inr v \<Rightarrow>
           Inr (''+'' @ js_ToString T (op_replica op) @ '':'' @ js_ToString T (op_time op)
                @ '':'' @ i @ '':'' @ v)))"

definition RemoveOp_toString :: "(Ident \<Rightarrow> string) \<Rightarrow> Op \<Rightarrow> error + string" where
  "RemoveOp_toString T op =
     (case js_toString_call T (op_id op) of
        Inl e \<Rightarrow> Inl e
      | Inr i \<Rightarrow>
        Inr (''-'' @ js_ToString T (op_replica op) @ '':'' @ js_ToString T (op_time op)
             @ '':'' @ i))"

text \<open>
  \<^verbatim>\<open>InsertOp.parse(str)\<close> and \<^verbatim>\<open>RemoveOp.parse(str)\<close>. \<open>N\<close> is the built-in
  \<^verbatim>\<open>Number\<close> applied to the time piece (a string, or \<^verbatim>\<open>undefined\<close>); its conversion
  is not spelled out here, so it is a parameter. \<open>P\<close> is \<^verbatim>\<open>Ident.parse\<close>, not among the
  sources, which may raise an error. The source calls \<^verbatim>\<open>Ident.parse(str)\<close>, with the
  whole encoded string; the piece \<^verbatim>\<open>id\<close> is not used.
\<close>

definition InsertOp_parse ::
  "(string option \<Rightarrow> jsval) \<Rightarrow> (string \<Rightarrow> error + Ident) \<Rightarrow> string \<Rightarrow> error + Op" where
  "InsertOp_parse N P str =
     (let ps = String_split CHR '':'' (drop 1 str);
          replica = piece ps 0; time = piece ps 1; id = piece ps 2; value = piece ps 3
      in case P str of
           Inl e \<Rightarrow> Inl e
         | Inr i \<Rightarrow> Inr (InsertOp_new (js_of_piece replica) (N time) (JIdent i) (js_of_piece value)))"

definition RemoveOp_parse ::
  "(string option \<Rightarrow> jsval) \<Rightarrow> (string \<Rightarrow> error + Ident) \<Rightarrow> string \<Rightarrow> error + Op" where
  "RemoveOp_parse N P str =
     (let ps = String_split CHR '':'' (drop 1 str);
          replica = piece ps 0; time = piece ps 1; id = piece ps 2
      in case P str of
           Inl e \<Rightarrow> Inl e
         | Inr i \<Rightarrow> Inr (RemoveOp_new (js_of_piece replica) (N time) (JIdent i)))"

text \<open>
  \<^verbatim>\<open>Op.parse(str)\<close>: a switch on \<^verbatim>\<open>str[0]\<close> with the cases \<^verbatim>\<open>'+'\<close> and \<^verbatim>\<open>'-'\<close>
  and no default; the function then ends without a return statement, and its result is
  \<^verbatim>\<open>undefined\<close> (\<open>None\<close>).
\<close>

definition Op_parse ::
  "(string option \<Rightarrow> jsval) \<Rightarrow> (string \<Rightarrow> error + Ident) \<Rightarrow> string \<Rightarrow> error + Op option" where
  "Op_parse N P str =
     (case str of
        [] \<Rightarrow> Inr None
      | kind # rest \<Rightarrow>
        if kind = CHR ''+'' then
          (case InsertOp_parse N P str of Inl e \<Rightarrow> Inl e | Inr op \<Rightarrow> Inr (Some op))
        else if kind = CHR ''-'' then
          (case RemoveOp_parse N P str of Inl e \<Rightarrow> Inl e | Inr op \<Rightarrow> Inr (Some op))
        else Inr None)"

text \<open>
  Modelled from the spec: \<^verbatim>\<open>Ident.toString()\<close>, each segment as
  \<^verbatim>\<open><position>,<disambiguator>\<close>, the segments joined by a fixed delimiter (a dot here).
\<close>

fun Ident_toString :: "Ident \<Rightarrow> string" where
  "Ident_toString [] = []"
| "Ident_toString [(p, d)] = string_of_nat p @ '','' @ d"
| "Ident_toString ((p, d) # seg # segs) =
     string_of_nat p @ '','' @ d @ ''.'' @ Ident_toString (seg # segs)"

section \<open>Ordered storage\<close>

text \<open>
  Modelled from the spec: the module \<^verbatim>\<open>./storage\<close> (Storage, ArrayStorage) is not among
  the sources. The storage is the list of its atoms in ascending identifier order.
  \<^item> \<open>add\<close> inserts an atom keeping the order, and does nothing if the identifier is present;
  \<^item> \<open>remove\<close> deletes the atom with the identifier, and does nothing if it is absent;
  \<^item> \<open>get\<close> returns the atom at a zero-based position counting the sentinels, or nothing
    (\<^verbatim>\<open>undefined\<close>) out of range;
  \<^item> \<open>size\<close> counts all atoms, the sentinels included;
  \<^item> \<open>map\<close> traverses all atoms in ascending order.
  The sentinels reach the storage through \<open>add\<close>, as every atom does (the constructor of
  Sequence adds them), and \<^verbatim>\<open>Sequence.size\<close> and \<^verbatim>\<open>Sequence.get\<close> make up for their
  presence in \<open>size\<close> and \<open>get\<close>.
\<close>

record Atom =
  atom_id :: Ident
  atom_value :: jsval

type_synonym ArrayStorage = "Atom list"

definition ArrayStorage_add :: "ArrayStorage \<Rightarrow> Ident \<Rightarrow> jsval \<Rightarrow> ArrayStorage" where
  "ArrayStorage_add atoms i v =
     (if i \<in> set (map atom_id atoms) then atoms
      else insort_key atom_id \<lparr>atom_id = i, atom_value = v\<rparr> atoms)"

definition ArrayStorage_remove :: "ArrayStorage \<Rightarrow> Ident \<Rightarrow> ArrayStorage" where
  "ArrayStorage_remove atoms i = filter (\<lambda>a. atom_id a \<noteq> i) atoms"

definition ArrayStorage_get :: "ArrayStorage \<Rightarrow> int \<Rightarrow> Atom option" where
  "ArrayStorage_get atoms pos =
     (if 0 \<le> pos \<and> pos < int (length atoms) then Some (atoms ! nat pos) else None)"

definition ArrayStorage_size :: "ArrayStorage \<Rightarrow> int" where
  "ArrayStorage_size atoms = int (length atoms)"

definition ArrayStorage_map :: "(Atom \<Rightarrow> 'b) \<Rightarrow> ArrayStorage \<Rightarrow> 'b list" where
  "ArrayStorage_map f atoms = map f atoms"

text \<open>
  Modelled from the spec: the storage orders atoms by comparing identifiers, and the spec
  defines \<open>add\<close> and \<open>remove\<close> for identifiers only. A call whose \<open>id\<close> argument is not
  an identifier at run time (\<^verbatim>\<open>undefined\<close>, say) has nothing to compare: it is modelled
  as raising a TypeError, the storage unchanged.
\<close>

fun Storage_add :: "ArrayStorage \<Rightarrow> jsval \<Rightarrow> jsval \<Rightarrow> error + ArrayStorage" where
  "Storage_add atoms (JIdent i) v = Inr (ArrayStorage_add atoms i v)"
| "Storage_add atoms _ v = Inl TypeError"

fun Storage_remove :: "ArrayStorage \<Rightarrow> jsval \<Rightarrow> error + ArrayStorage" where
  "Storage_remove atoms (JIdent i) = Inr (ArrayStorage_remove atoms i)"
| "Storage_remove atoms _ = Inl TypeError"

section \<open>Sequence.ts\<close>

text \<open>
  The identifier generator is the constructor's \<^verbatim>\<open>idGenerator\<close> argument, an
  implementation of the interface IdentGenerator: \<open>getBookends\<close> gives the two sentinel
  identifiers, \<open>getIdent\<close> allocates an identifier between two neighbours and may change
  the generator's own state \<open>'g\<close>.
\<close>

record 'g IdentGenerator =
  getBookends :: "'g \<Rightarrow> Ident \<times> Ident"
  getIdent :: "'g \<Rightarrow> Ident \<Rightarrow> Ident \<Rightarrow> Ident \<times> 'g"

text \<open>
  The fields of a Sequence. \<^verbatim>\<open>maxDepth\<close> is declared a number and is \<^verbatim>\<open>undefined\<close>
  (\<open>None\<close>) until something assigns it.
\<close>

record 'g Sequence =
  replica :: string
  maxDepth :: "int option"
  storage :: ArrayStorage
  idGenerator :: 'g

text \<open>
  The constructor, with the \<^verbatim>\<open>storage\<close> argument left out (a new, empty ArrayStorage)
  and the generator \<open>G\<close> in state \<open>g\<close> as \<^verbatim>\<open>idGenerator\<close>. It adds the two bookends
  with value \<^verbatim>\<open>null\<close>; it does not assign \<^verbatim>\<open>maxDepth\<close>.
\<close>

definition Sequence_new :: "'g IdentGenerator \<Rightarrow> 'g \<Rightarrow> string \<Rightarrow> 'g Sequence" where
  "Sequence_new G g r =
     (let (first, last) = getBookends G g
      in \<lparr>replica = r, maxDepth = None,
          storage = ArrayStorage_add (ArrayStorage_add [] first Null) last Null,
          idGenerator = g\<rparr>)"

definition Sequence_size :: "'g Sequence \<Rightarrow> int" where
  "Sequence_size s = ArrayStorage_size (storage s) - 2"

definition Sequence_depth :: "'g Sequence \<Rightarrow> int option" where
  "Sequence_depth s = maxDepth s"

text \<open>
  \<^verbatim>\<open>apply(op)\<close>: a switch on \<^verbatim>\<open>op.kind\<close>. Every operation of the model returns the
  sequence as the call leaves it, beside the result or the error thrown. Positions are
  integers; a position that is not an integral number is outside the model.
\<close>

definition Sequence_apply :: "'g Sequence \<Rightarrow> Op \<Rightarrow> (error + unit) \<times> 'g Sequence" where
  "Sequence_apply s op =
     (if op_kind op = OpKind_Insert then
        (case Storage_add (storage s) (op_id op) (op_value op) of
           Inl e \<Rightarrow> (Inl e, s)
         | Inr st \<Rightarrow> (Inr (), s\<lparr>storage := st\<rparr>))
      else if op_kind op = OpKind_Remove then
        (case Storage_remove (storage s) (op_id op) of
           Inl e \<Rightarrow> (Inl e, s)
         | Inr st \<Rightarrow> (Inr (), s\<lparr>storage := st\<rparr>))
      else (Inl (UnknownOpKind (op_kind op)), s))"

text \<open>
  \<^verbatim>\<open>insert(value, pos)\<close>. Reading \<^verbatim>\<open>.id\<close> of a missing neighbour raises a TypeError. The
  operation is built by \<^verbatim>\<open>new InsertOp(id, value)\<close>: the identifier is the constructor's
  first argument and the value its second. \<^verbatim>\<open>this.maxDepth < id.getDepth()\<close> is false
  while \<^verbatim>\<open>maxDepth\<close> is \<^verbatim>\<open>undefined\<close>.
\<close>

definition Sequence_insert ::
  "'g IdentGenerator \<Rightarrow> 'g Sequence \<Rightarrow> jsval \<Rightarrow> int \<Rightarrow> (error + Op) \<times> 'g Sequence" where
  "Sequence_insert G s v pos =
     (case ArrayStorage_get (storage s) pos of
        None \<Rightarrow> (Inl TypeError, s)
      | Some atom_before \<Rightarrow>
        (case ArrayStorage_get (storage s) (pos + 1) of
           None \<Rightarrow> (Inl TypeError, s)
         | Some atom_after \<Rightarrow>
           (let (i, g') = getIdent G (idGenerator s) (atom_id atom_before) (atom_id atom_after);
                s1 = s\<lparr>idGenerator := g'\<rparr>;
                op = InsertOp_new (JIdent i) v Undefined Undefined
            in case Sequence_apply s1 op of
                 (Inl e, s2) \<Rightarrow> (Inl e, s2)
               | (Inr u, s2) \<Rightarrow>
                 (Inr op,
                  if (case maxDepth s2 of None \<Rightarrow> False | Some m \<Rightarrow> m < Ident_getDepth i)
                  then s2\<lparr>maxDepth := Some (Ident_getDepth i)\<rparr> else s2))))"

definition Sequence_append ::
  "'g IdentGenerator \<Rightarrow> 'g Sequence \<Rightarrow> jsval \<Rightarrow> (error + Op) \<times> 'g Sequence" where
  "Sequence_append G s v = Sequence_insert G s v (Sequence_size s)"

text \<open>
  \<^verbatim>\<open>remove(pos)\<close>: the atom is read at \<^verbatim>\<open>storage.get(pos)\<close>, the operation is built
  by \<^verbatim>\<open>new RemoveOp(atom.id)\<close>, and \<^verbatim>\<open>null\<close> (\<open>None\<close>) is returned when there is no
  atom.
\<close>

definition Sequence_remove :: "'g Sequence \<Rightarrow> int \<Rightarrow> (error + Op option) \<times> 'g Sequence" where
  "Sequence_remove s pos =
     (case ArrayStorage_get (storage s) pos of
        None \<Rightarrow> (Inr None, s)
      | Some atom \<Rightarrow>
        (let op = RemoveOp_new (JIdent (atom_id atom)) Undefined Undefined
         in case Sequence_apply s op of
              (Inl e, s') \<Rightarrow> (Inl e, s')
            | (Inr u, s') \<Rightarrow> (Inr (Some op), s')))"

definition Sequence_get :: "'g Sequence \<Rightarrow> int \<Rightarrow> jsval" where
  "Sequence_get s pos =
     (case ArrayStorage_get (storage s) (pos + 1) of
        None \<Rightarrow> Undefined
      | Some atom \<Rightarrow> atom_value atom)"

definition Sequence_map :: "(jsval \<Rightarrow> 'b) \<Rightarrow> 'g Sequence \<Rightarrow> 'b list" where
  "Sequence_map func s = ArrayStorage_map (\<lambda>atom. func (atom_value atom)) (storage s)"

definition Sequence_toArray :: "'g Sequence \<Rightarrow> jsval list" where
  "Sequence_toArray s = ArrayStorage_map (\<lambda>atom. atom_value atom) (storage s)"

text \<open>
  \<^verbatim>\<open>toJSON()\<close>: the object \<^verbatim>\<open>{r, d}\<close> as a pair. \<open>T\<close> is \<^verbatim>\<open>Ident.toString\<close>, whose
  code is not among the sources.
\<close>

definition Sequence_toJSON ::
  "(Ident \<Rightarrow> string) \<Rightarrow> 'g Sequence \<Rightarrow> string \<times> (string \<times> jsval) list" where
  "Sequence_toJSON T s =
     (replica s, ArrayStorage_map (\<lambda>atom. (T (atom_id atom), atom_value atom)) (storage s))"

section \<open>Sequences of calls\<close>

text \<open>
  The public operations that change a Sequence, and what a list of such calls leaves: a
  caller may catch an error and go on, so the sequence after a failed call is the one the
  call left.
\<close>

datatype call =
    CallInsert jsval int
  | CallAppend jsval
  | CallRemove int
  | CallApply Op

fun step :: "'g IdentGenerator \<Rightarrow> 'g Sequence \<Rightarrow> call \<Rightarrow> 'g Sequence" where
  "step G s (CallInsert v pos) = snd (Sequence_insert G s v pos)"
| "step G s (CallAppend v) = snd (Sequence_append G s v)"
| "step G s (CallRemove pos) = snd (Sequence_remove s pos)"
| "step G s (CallApply op) = snd (Sequence_apply s op)"

fun run :: "'g IdentGenerator \<Rightarrow> 'g Sequence \<Rightarrow> call list \<Rightarrow> 'g Sequence" where
  "run G s [] = s"
| "run G s (c # cs) = run G (step G s c) cs"

text \<open>
  An implementation of IdentGenerator for the examples. Its bookends are the sentinels of
  the spec for base 5, \<^verbatim>\<open>MIN\<close> at position 0 and \<^verbatim>\<open>MAX\<close> at position \<open>2^5 - 1\<close>; its state
  is a local counter; \<open>getIdent\<close> extends the lower neighbour by one segment.
\<close>

definition Ident_MIN :: Ident where
  "Ident_MIN = [(0, [])]"

definition Ident_MAX :: Ident where
  "Ident_MAX = [(31, [])]"

definition exampleGenerator :: "nat IdentGenerator" where
  "exampleGenerator =
     \<lparr>getBookends = (\<lambda>g. (Ident_MIN, Ident_MAX)),
      getIdent = (\<lambda>g low high. (low @ [(1, ''A'')], Suc g))\<rparr>"

text \<open>
  The bookends \<open>lo\<close> and \<open>hi\<close> are stored: the identifiers of the storage are pairwise
  distinct and both sentinel atoms are among its atoms, with value \<^verbatim>\<open>null\<close>.
\<close>

definition sentinels_kept :: "Ident \<Rightarrow> Ident \<Rightarrow> ArrayStorage \<Rightarrow> bool" where
  "sentinels_kept lo hi atoms \<longleftrightarrow>
     distinct (map atom_id atoms) \<and>
     \<lparr>atom_id = lo, atom_value = Null\<rparr> \<in> set atoms \<and>
     \<lparr>atom_id = hi, atom_value = Null\<rparr> \<in> set atoms"

text \<open>
  A call spares the bookends unless it applies an operation of kind Remove whose
  identifier is one of them.
\<close>

fun spares :: "Ident \<Rightarrow> Ident \<Rightarrow> call \<Rightarrow> bool" where
  "spares lo hi (CallApply op) =
     (op_kind op = OpKind_Remove \<longrightarrow> op_id op \<noteq> JIdent lo \<and> op_id op \<noteq> JIdent hi)"
| "spares lo hi c = True"

section \<open>The storage\<close>

lemma ArrayStorage_add_distinct:
  "distinct (map atom_id atoms) \<Longrightarrow> distinct (map atom_id (ArrayStorage_add atoms i v))"
  by (simp add: ArrayStorage_add_def distinct_insort_key)

lemma ArrayStorage_add_keeps:
  "a \<in> set atoms \<Longrightarrow> a \<in> set (ArrayStorage_add atoms i v)"
  by (simp add: ArrayStorage_add_def set_insort_key)

lemma ArrayStorage_add_sorted:
  "sorted (map atom_id atoms) \<Longrightarrow> sorted (map atom_id (ArrayStorage_add atoms i v))"
  by (simp add: ArrayStorage_add_def sorted_insort_key)

lemma ArrayStorage_remove_distinct:
  "distinct (map atom_id atoms) \<Longrightarrow> distinct (map atom_id (ArrayStorage_remove atoms i))"
  by (simp add: ArrayStorage_remove_def distinct_map_filter)

lemma ArrayStorage_remove_keeps:
  "a \<in> set atoms \<Longrightarrow> atom_id a \<noteq> i \<Longrightarrow> a \<in> set (ArrayStorage_remove atoms i)"
  by (simp add: ArrayStorage_remove_def)

lemma ArrayStorage_remove_sorted:
  "sorted (map atom_id atoms) \<Longrightarrow> sorted (map atom_id (ArrayStorage_remove atoms i))"
  by (simp add: ArrayStorage_remove_def sorted_filter)

lemma Sequence_new_storage:
  "storage (Sequence_new exampleGenerator g r) =
     [\<lparr>atom_id = Ident_MIN, atom_value = Null\<rparr>, \<lparr>atom_id = Ident_MAX, atom_value = Null\<rparr>]"
  by (simp add: Sequence_new_def exampleGenerator_def ArrayStorage_add_def Ident_MIN_def
      Ident_MAX_def)

section \<open>The local operations\<close>

text \<open>
  \<^verbatim>\<open>insert\<close> passes an operation whose \<^verbatim>\<open>id\<close> is \<^verbatim>\<open>undefined\<close> to \<^verbatim>\<open>apply\<close>, and
  \<^verbatim>\<open>remove\<close> does the same whenever it finds an atom: the storage is asked to add or
  remove \<^verbatim>\<open>undefined\<close>.
\<close>

lemma Sequence_insert_raises:
  "fst (Sequence_insert G s v pos) = Inl TypeError"
  by (auto simp: Sequence_insert_def Sequence_apply_def InsertOp_new_def Let_def
      split: option.splits prod.splits sum.splits)

lemma Sequence_insert_storage:
  "storage (snd (Sequence_insert G s v pos)) = storage s"
  by (auto simp: Sequence_insert_def Sequence_apply_def InsertOp_new_def Let_def
      split: option.splits prod.splits sum.splits)

lemma Sequence_insert_maxDepth:
  "maxDepth s = None \<Longrightarrow> maxDepth (snd (Sequence_insert G s v pos)) = None"
  by (auto simp: Sequence_insert_def Sequence_apply_def InsertOp_new_def Let_def
      split: option.splits prod.splits sum.splits)

lemma Sequence_remove_raises:
  "Sequence_remove s pos =
     (case ArrayStorage_get (storage s) pos of
        None \<Rightarrow> (Inr None, s)
      | Some atom \<Rightarrow> (Inl TypeError, s))"
  by (auto simp: Sequence_remove_def Sequence_apply_def RemoveOp_new_def Let_def
        OpKind_Remove_def OpKind_Insert_def
      split: option.splits prod.splits sum.splits)

lemma Sequence_remove_unchanged: "snd (Sequence_remove s pos) = s"
  by (simp add: Sequence_remove_raises split: option.splits)

text \<open>
  C1: \<^verbatim>\<open>insert(v, pos)\<close> does not return an InsertOp with the replica id, the time,
  the new identifier and the value, and nothing is added to the storage: for every
  sequence, value and position the call raises a TypeError and leaves the storage as it
  was. (Out of range it is the read of \<^verbatim>\<open>.id\<close> that fails; in range it is
  \<^verbatim>\<open>storage.add(undefined, undefined)\<close>, the operation being
  \<^verbatim>\<open>InsertOp_new (JIdent i) v Undefined Undefined\<close>.)
\<close>

theorem insert_raises:
  "fst (Sequence_insert G s v pos) = Inl TypeError \<and>
   storage (snd (Sequence_insert G s v pos)) = storage s"
  by (simp add: Sequence_insert_raises Sequence_insert_storage)

text \<open>
  C2: the scenario on the code. On a new Sequence at replica A, \<^verbatim>\<open>insert("x", 0)\<close>
  raises a TypeError, and after \<^verbatim>\<open>insert("x", 0)\<close> and \<^verbatim>\<open>insert("y", 1)\<close> the array
  \<^verbatim>\<open>toArray()\<close> is \<^verbatim>\<open>[null, null]\<close>, the values of the two sentinels, not
  \<^verbatim>\<open>["x", "y"]\<close>.
\<close>

theorem scenario_raises:
  "fst (Sequence_insert exampleGenerator (Sequence_new exampleGenerator 0 ''A'') (JStr ''x'') 0)
     = Inl TypeError \<and>
   Sequence_toArray (run exampleGenerator (Sequence_new exampleGenerator 0 ''A'')
     [CallInsert (JStr ''x'') 0, CallInsert (JStr ''y'') 1]) = [Null, Null]"
  by (simp add: Sequence_insert_raises Sequence_insert_storage Sequence_toArray_def
      ArrayStorage_map_def Sequence_new_storage)

text \<open>
  C3: \<^verbatim>\<open>remove(0)\<close> on a sequence that holds the one value \<^verbatim>\<open>"x"\<close> (put there by
  applying an InsertOp of replica B) does not remove it: the atom read at position 0 of
  the storage is the lower sentinel, the RemoveOp built from it has no \<^verbatim>\<open>id\<close>, and the
  call raises a TypeError; \<^verbatim>\<open>get(0)\<close> is \<^verbatim>\<open>"x"\<close> before and after.
\<close>

theorem remove_first_raises:
  "Sequence_get (snd (Sequence_apply (Sequence_new exampleGenerator 0 ''A'')
      (InsertOp_new (JStr ''B'') (JNum 1) (JIdent [(7, ''B'')]) (JStr ''x'')))) 0 = JStr ''x'' \<and>
   fst (Sequence_remove (snd (Sequence_apply (Sequence_new exampleGenerator 0 ''A'')
      (InsertOp_new (JStr ''B'') (JNum 1) (JIdent [(7, ''B'')]) (JStr ''x'')))) 0) = Inl TypeError \<and>
   Sequence_get (snd (Sequence_remove (snd (Sequence_apply (Sequence_new exampleGenerator 0 ''A'')
      (InsertOp_new (JStr ''B'') (JNum 1) (JIdent [(7, ''B'')]) (JStr ''x'')))) 0)) 0 = JStr ''x''"
  by (simp add: Sequence_remove_raises Sequence_get_def Sequence_apply_def InsertOp_new_def
      Sequence_new_storage ArrayStorage_add_def ArrayStorage_get_def Ident_MIN_def Ident_MAX_def)

text \<open>
  C9: \<^verbatim>\<open>depth()\<close> is \<^verbatim>\<open>undefined\<close> after every list of calls on a new Sequence, local
  inserts included: the constructor does not assign \<^verbatim>\<open>maxDepth\<close>, and the comparison
  \<^verbatim>\<open>this.maxDepth < id.getDepth()\<close> that guards the update is false for
  \<^verbatim>\<open>undefined\<close>.
\<close>

theorem depth_stays_undefined:
  "Sequence_depth (run G (Sequence_new G g r) calls) = None"
proof -
  have step: "maxDepth (step G s c) = None" if "maxDepth s = None" for s :: "'a Sequence" and c
    using that
    by (cases c) (simp_all add: Sequence_insert_maxDepth Sequence_append_def
        Sequence_remove_unchanged Sequence_apply_def split: sum.splits)
  have "maxDepth (run G s calls) = None" if "maxDepth s = None" for s :: "'a Sequence"
    using that by (induction calls arbitrary: s) (simp_all add: step)
  moreover have "maxDepth (Sequence_new G g r) = None"
    by (simp add: Sequence_new_def split: prod.splits)
  ultimately show ?thesis by (simp add: Sequence_depth_def)
qed

section \<open>The sentinels\<close>

lemma sentinels_kept_new:
  "getBookends G g = (lo, hi) \<Longrightarrow> sentinels_kept lo hi (storage (Sequence_new G g r))"
  by (auto simp: Sequence_new_def sentinels_kept_def ArrayStorage_add_def set_insort_key
      distinct_insort_key)

lemma sentinels_kept_apply:
  assumes "sentinels_kept lo hi (storage s)" and "spares lo hi (CallApply op)"
  shows "sentinels_kept lo hi (storage (snd (Sequence_apply s op)))"
proof (cases "op_id op")
  case (JIdent i)
  with assms show ?thesis
    by (auto simp: Sequence_apply_def sentinels_kept_def ArrayStorage_add_distinct
        ArrayStorage_add_keeps ArrayStorage_remove_distinct ArrayStorage_remove_keeps)
qed (use assms in \<open>auto simp: Sequence_apply_def\<close>)

lemma sentinels_kept_step:
  assumes "sentinels_kept lo hi (storage s)" and "spares lo hi c"
  shows "sentinels_kept lo hi (storage (step G s c))"
  using assms
  by (cases c) (simp_all add: Sequence_insert_storage Sequence_append_def
      Sequence_remove_unchanged sentinels_kept_apply del: spares.simps)

lemma sentinels_kept_run:
  assumes "sentinels_kept lo hi (storage s)" and "\<forall>c\<in>set calls. spares lo hi c"
  shows "sentinels_kept lo hi (storage (run G s calls))"
  using assms
  by (induction calls arbitrary: s) (simp_all add: sentinels_kept_step)

text \<open>The storage stays in ascending identifier order, whatever is called.\<close>

lemma storage_sorted_step:
  "sorted (map atom_id (storage s)) \<Longrightarrow> sorted (map atom_id (storage (step G s c)))"
proof (cases c)
  case (CallApply op)
  assume "sorted (map atom_id (storage s))"
  then show ?thesis
    by (cases "op_id op")
      (auto simp: CallApply Sequence_apply_def ArrayStorage_add_sorted
        ArrayStorage_remove_sorted)
qed (simp_all add: Sequence_insert_storage Sequence_append_def Sequence_remove_unchanged)

lemma storage_sorted_run:
  "sorted (map atom_id (storage (run G (Sequence_new G g r) calls)))"
proof -
  have "sorted (map atom_id (storage (run G s calls)))"
    if "sorted (map atom_id (storage s))" for s :: "'a Sequence"
    using that by (induction calls arbitrary: s) (simp_all add: storage_sorted_step)
  moreover have "sorted (map atom_id (storage (Sequence_new G g r)))"
    by (simp add: Sequence_new_def ArrayStorage_add_sorted split: prod.splits)
  ultimately show ?thesis .
qed

lemma length_filter_key:
  "distinct (map f xs) \<Longrightarrow> a \<in> set xs \<Longrightarrow>
   length (filter (\<lambda>x. f x \<noteq> f a) xs) = length xs - 1"
proof (induction xs)
  case Nil
  then show ?case by simp
next
  case (Cons x xs)
  show ?case
  proof (cases "f x = f a")
    case True
    with Cons.prems have "f a \<notin> f ` set xs" by simp
    then have "\<forall>y\<in>set xs. f y \<noteq> f a" by (metis imageI)
    then have "filter (\<lambda>x. f x \<noteq> f a) xs = xs" by (simp add: filter_id_conv)
    with True show ?thesis by simp
  next
    case False
    with Cons.prems have "a \<in> set xs" by auto
    with Cons have "length (filter (\<lambda>x. f x \<noteq> f a) xs) = length xs - 1" by simp
    moreover from \<open>a \<in> set xs\<close> have "0 < length xs" by (cases xs) auto
    ultimately show ?thesis using False by simp
  qed
qed

lemma length_filter_two:
  assumes "distinct (map f xs)" and "a \<in> set xs" and "b \<in> set xs" and "f a \<noteq> f b"
  shows "int (length (filter (\<lambda>x. f x \<noteq> f a \<and> f x \<noteq> f b) xs)) = int (length xs) - 2"
proof -
  let ?ys = "filter (\<lambda>x. f x \<noteq> f a) xs"
  have d: "distinct (map f ?ys)" using assms(1) by (simp add: distinct_map_filter)
  have b: "b \<in> set ?ys" using assms by auto
  have "filter (\<lambda>x. f x \<noteq> f a \<and> f x \<noteq> f b) xs = filter (\<lambda>x. f x \<noteq> f b) ?ys"
    by (simp add: conj_commute)
  then have "length (filter (\<lambda>x. f x \<noteq> f a \<and> f x \<noteq> f b) xs) = length ?ys - 1"
    using length_filter_key [OF d b] by simp
  also have "\<dots> = length xs - 1 - 1"
    using length_filter_key [OF assms(1) assms(2)] by simp
  finally have "length (filter (\<lambda>x. f x \<noteq> f a \<and> f x \<noteq> f b) xs) = length xs - 2" by simp
  moreover have "2 \<le> length xs"
  proof -
    from b have "0 < length ?ys" by (cases ?ys) auto
    with length_filter_key [OF assms(1) assms(2)] show ?thesis by simp
  qed
  ultimately show ?thesis by simp
qed

text \<open>
  C4, as stated, fails: applying a RemoveOp that carries the identifier of the lower
  sentinel to a new Sequence removes that sentinel, and \<^verbatim>\<open>size()\<close> is then \<open>-1\<close>.
\<close>

theorem sentinel_removed:
  "\<lparr>atom_id = Ident_MIN, atom_value = Null\<rparr> \<notin>
     set (storage (run exampleGenerator (Sequence_new exampleGenerator 0 ''A'')
       [CallApply (RemoveOp_new (JStr ''B'') (JNum 1) (JIdent Ident_MIN))])) \<and>
   Sequence_size (run exampleGenerator (Sequence_new exampleGenerator 0 ''A'')
       [CallApply (RemoveOp_new (JStr ''B'') (JNum 1) (JIdent Ident_MIN))]) = - 1"
  by (simp add: Sequence_apply_def RemoveOp_new_def OpKind_Remove_def OpKind_Insert_def
      Sequence_new_storage ArrayStorage_remove_def Sequence_size_def ArrayStorage_size_def
      Ident_MIN_def Ident_MAX_def)

text \<open>
  C4, amended: on a Sequence whose generator gives two different bookends \<open>lo\<close> and
  \<open>hi\<close>, after every list of calls of \<^verbatim>\<open>insert\<close>, \<^verbatim>\<open>append\<close>, \<^verbatim>\<open>remove\<close> and
  \<^verbatim>\<open>apply\<close> in which no applied operation of kind Remove carries \<open>lo\<close> or \<open>hi\<close>, the
  storage holds both sentinel atoms, every atom with a sentinel's identifier has the value
  \<^verbatim>\<open>null\<close>, and \<^verbatim>\<open>size()\<close> is the number of atoms other than the two sentinels.
\<close>

theorem sentinels_kept_unless_removed:
  assumes "getBookends G g = (lo, hi)" and "lo \<noteq> hi"
    and "\<forall>c\<in>set calls. spares lo hi c"
  shows "\<lparr>atom_id = lo, atom_value = Null\<rparr> \<in> set (storage (run G (Sequence_new G g r) calls)) \<and>
    \<lparr>atom_id = hi, atom_value = Null\<rparr> \<in> set (storage (run G (Sequence_new G g r) calls)) \<and>
    (\<forall>a\<in>set (storage (run G (Sequence_new G g r) calls)).
       atom_id a = lo \<or> atom_id a = hi \<longrightarrow> atom_value a = Null) \<and>
    Sequence_size (run G (Sequence_new G g r) calls) =
      int (length (filter (\<lambda>a. atom_id a \<noteq> lo \<and> atom_id a \<noteq> hi)
        (storage (run G (Sequence_new G g r) calls))))"
proof -
  let ?atoms = "storage (run G (Sequence_new G g r) calls)"
  let ?lo = "\<lparr>atom_id = lo, atom_value = Null\<rparr>" and ?hi = "\<lparr>atom_id = hi, atom_value = Null\<rparr>"
  have kept: "sentinels_kept lo hi ?atoms"
    by (rule sentinels_kept_run [OF sentinels_kept_new [OF assms(1)] assms(3)])
  then have d: "distinct (map atom_id ?atoms)" and lo: "?lo \<in> set ?atoms" and hi: "?hi \<in> set ?atoms"
    by (simp_all add: sentinels_kept_def)
  have null: "atom_value a = Null"
    if a: "a \<in> set ?atoms" and id: "atom_id a = lo \<or> atom_id a = hi" for a
  proof -
    from d have inj: "inj_on atom_id (set ?atoms)" by (simp add: distinct_map)
    from id show ?thesis
    proof
      assume "atom_id a = lo"
      then have "atom_id a = atom_id ?lo" by simp
      from inj_onD [OF inj this a lo] show ?thesis by simp
    next
      assume "atom_id a = hi"
      then have "atom_id a = atom_id ?hi" by simp
      from inj_onD [OF inj this a hi] show ?thesis by simp
    qed
  qed
  have "int (length (filter (\<lambda>a. atom_id a \<noteq> atom_id ?lo \<and> atom_id a \<noteq> atom_id ?hi) ?atoms))
      = int (length ?atoms) - 2"
    using d lo hi assms(2) by (intro length_filter_two) simp_all
  then have "Sequence_size (run G (Sequence_new G g r) calls) =
      int (length (filter (\<lambda>a. atom_id a \<noteq> lo \<and> atom_id a \<noteq> hi) ?atoms))"
    by (simp add: Sequence_size_def ArrayStorage_size_def)
  with lo hi null show ?thesis by blast
qed

theorem sentinels_kept_unless_removed_witness:
  "getBookends exampleGenerator 0 = (Ident_MIN, Ident_MAX) \<and> Ident_MIN \<noteq> Ident_MAX \<and>
   spares Ident_MIN Ident_MAX
     (CallApply (InsertOp_new (JStr ''B'') (JNum 1) (JIdent [(7, ''B'')]) (JStr ''x''))) \<and>
   spares Ident_MIN Ident_MAX
     (CallApply (InsertOp_new (JStr ''B'') (JNum 2) (JIdent [(9, ''B'')]) (JStr ''y''))) \<and>
   spares Ident_MIN Ident_MAX (CallRemove 0) \<and>
   spares Ident_MIN Ident_MAX
     (CallApply (RemoveOp_new (JStr ''B'') (JNum 3) (JIdent [(7, ''B'')]))) \<and>
   spares Ident_MIN Ident_MAX (CallAppend (JStr ''z'')) \<and>
   storage (run exampleGenerator (Sequence_new exampleGenerator 0 ''A'')
      [CallApply (InsertOp_new (JStr ''B'') (JNum 1) (JIdent [(7, ''B'')]) (JStr ''x'')),
       CallApply (InsertOp_new (JStr ''B'') (JNum 2) (JIdent [(9, ''B'')]) (JStr ''y'')),
       CallRemove 0,
       CallApply (RemoveOp_new (JStr ''B'') (JNum 3) (JIdent [(7, ''B'')])),
       CallAppend (JStr ''z'')]) =
     [\<lparr>atom_id = Ident_MIN, atom_value = Null\<rparr>,
      \<lparr>atom_id = [(9, ''B'')], atom_value = JStr ''y''\<rparr>,
      \<lparr>atom_id = Ident_MAX, atom_value = Null\<rparr>] \<and>
   Sequence_size (run exampleGenerator (Sequence_new exampleGenerator 0 ''A'')
      [CallApply (InsertOp_new (JStr ''B'') (JNum 1) (JIdent [(7, ''B'')]) (JStr ''x'')),
       CallApply (InsertOp_new (JStr ''B'') (JNum 2) (JIdent [(9, ''B'')]) (JStr ''y'')),
       CallRemove 0,
       CallApply (RemoveOp_new (JStr ''B'') (JNum 3) (JIdent [(7, ''B'')])),
       CallAppend (JStr ''z'')]) = 1"
proof -
  let ?calls = "[CallApply (InsertOp_new (JStr ''B'') (JNum 1) (JIdent [(7, ''B'')]) (JStr ''x'')),
       CallApply (InsertOp_new (JStr ''B'') (JNum 2) (JIdent [(9, ''B'')]) (JStr ''y'')),
       CallRemove 0,
       CallApply (RemoveOp_new (JStr ''B'') (JNum 3) (JIdent [(7, ''B'')])),
       CallAppend (JStr ''z'')]"
  let ?s = "run exampleGenerator (Sequence_new exampleGenerator 0 ''A'') ?calls"
  have bookends: "getBookends exampleGenerator 0 = (Ident_MIN, Ident_MAX)"
    by (simp add: exampleGenerator_def)
  have differ: "Ident_MIN \<noteq> Ident_MAX"
    by (simp add: Ident_MIN_def Ident_MAX_def)
  have spared: "\<forall>c\<in>set ?calls. spares Ident_MIN Ident_MAX c"
    by (simp add: InsertOp_new_def RemoveOp_new_def OpKind_Insert_def OpKind_Remove_def
        Ident_MIN_def Ident_MAX_def)
  have atoms: "storage ?s =
     [\<lparr>atom_id = Ident_MIN, atom_value = Null\<rparr>,
      \<lparr>atom_id = [(9, ''B'')], atom_value = JStr ''y''\<rparr>,
      \<lparr>atom_id = Ident_MAX, atom_value = Null\<rparr>]"
    by (simp add: Sequence_apply_def InsertOp_new_def RemoveOp_new_def OpKind_Insert_def
        OpKind_Remove_def Sequence_new_storage ArrayStorage_add_def ArrayStorage_remove_def
        Sequence_remove_unchanged Sequence_append_def Sequence_insert_storage
        Ident_MIN_def Ident_MAX_def)
  have "Sequence_size ?s =
      int (length (filter (\<lambda>a. atom_id a \<noteq> Ident_MIN \<and> atom_id a \<noteq> Ident_MAX) (storage ?s)))"
    using sentinels_kept_unless_removed [OF bookends differ spared, of "''A''"] by blast
  then have "Sequence_size ?s = 1"
    by (simp only: atoms) (simp add: Ident_MIN_def Ident_MAX_def)
  with bookends differ spared atoms show ?thesis by simp
qed

section \<open>The textual encoding\<close>

text \<open>
  C5: the round trip on the code. The InsertOp of replica A at time 3 with an identifier
  printed as \<^verbatim>\<open>"1,A"\<close> and the value \<^verbatim>\<open>"x"\<close> is encoded as \<^verbatim>\<open>"+A:3:1,A:x"\<close>, and
  the third piece of that text is \<^verbatim>\<open>"1,A"\<close>. \<^verbatim>\<open>Op.parse\<close> does not give that piece to
  \<^verbatim>\<open>Ident.parse\<close>: it gives the whole text \<^verbatim>\<open>"+A:3:1,A:x"\<close>, raises whatever error
  \<^verbatim>\<open>Ident.parse\<close> raises for it, and otherwise returns an operation whose \<^verbatim>\<open>id\<close> is
  the identifier read from the whole text. The same holds of the RemoveOp and its text
  \<^verbatim>\<open>"-A:3:1,A"\<close>.
\<close>

theorem parse_reads_whole_text:
  "InsertOp_toString Ident_toString
     (InsertOp_new (JStr ''A'') (JNum 3) (JIdent [(1, ''A'')]) (JStr ''x'')) =
     Inr ''+A:3:1,A:x'' \<and>
   piece (String_split CHR '':'' (drop 1 ''+A:3:1,A:x'')) 2 = Some ''1,A'' \<and>
   Op_parse N P ''+A:3:1,A:x'' =
     (case P ''+A:3:1,A:x'' of
        Inl e \<Rightarrow> Inl e
      | Inr j \<Rightarrow>
        Inr (Some (InsertOp_new (JStr ''A'') (N (Some ''3'')) (JIdent j) (JStr ''x'')))) \<and>
   RemoveOp_toString Ident_toString
     (RemoveOp_new (JStr ''A'') (JNum 3) (JIdent [(1, ''A'')])) =
     Inr ''-A:3:1,A'' \<and>
   piece (String_split CHR '':'' (drop 1 ''-A:3:1,A'')) 2 = Some ''1,A'' \<and>
   Op_parse N P ''-A:3:1,A'' =
     (case P ''-A:3:1,A'' of
        Inl e \<Rightarrow> Inl e
      | Inr j \<Rightarrow> Inr (Some (RemoveOp_new (JStr ''A'') (N (Some ''3'')) (JIdent j))))"
proof -
  have digits: "string_of_nat 3 = ''3''" "string_of_nat (Suc 0) = ''1''"
    by (simp_all add: string_of_nat.simps)
  have "InsertOp_toString Ident_toString
     (InsertOp_new (JStr ''A'') (JNum 3) (JIdent [(1, ''A'')]) (JStr ''x'')) =
     Inr ''+A:3:1,A:x''"
    by (simp add: InsertOp_toString_def InsertOp_new_def string_of_int_def digits)
  moreover have "RemoveOp_toString Ident_toString
     (RemoveOp_new (JStr ''A'') (JNum 3) (JIdent [(1, ''A'')])) =
     Inr ''-A:3:1,A''"
    by (simp add: RemoveOp_toString_def RemoveOp_new_def string_of_int_def digits)
  moreover have "piece (String_split CHR '':'' (drop 1 ''+A:3:1,A:x'')) 2 = Some ''1,A''"
    and "piece (String_split CHR '':'' (drop 1 ''-A:3:1,A'')) 2 = Some ''1,A''"
    by (simp_all add: piece_def)
  moreover have "Op_parse N P ''+A:3:1,A:x'' =
     (case P ''+A:3:1,A:x'' of
        Inl e \<Rightarrow> Inl e
      | Inr j \<Rightarrow>
        Inr (Some (InsertOp_new (JStr ''A'') (N (Some ''3'')) (JIdent j) (JStr ''x''))))"
    by (simp add: Op_parse_def InsertOp_parse_def piece_def js_of_piece_def
        split: sum.splits)
  moreover have "Op_parse N P ''-A:3:1,A'' =
     (case P ''-A:3:1,A'' of
        Inl e \<Rightarrow> Inl e
      | Inr j \<Rightarrow> Inr (Some (RemoveOp_new (JStr ''A'') (N (Some ''3'')) (JIdent j))))"
    by (simp add: Op_parse_def RemoveOp_parse_def piece_def js_of_piece_def
        split: sum.splits)
  ultimately show ?thesis by (simp only: simp_thms)
qed

text \<open>
  C7: for the empty string and for every string whose first character is neither
  \<^verbatim>\<open>'+'\<close> nor \<^verbatim>\<open>'-'\<close>, \<^verbatim>\<open>Op.parse\<close> raises nothing and returns \<^verbatim>\<open>undefined\<close>.
\<close>

theorem unknown_sigil_undefined:
  "Op_parse N P [] = Inr None \<and>
   (kind \<noteq> CHR ''+'' \<and> kind \<noteq> CHR ''-'' \<longrightarrow> Op_parse N P (kind # rest) = Inr None)"
  by (simp add: Op_parse_def)

theorem unknown_sigil_undefined_witness:
  "CHR ''?'' \<noteq> CHR ''+'' \<and> CHR ''?'' \<noteq> CHR ''-'' \<and>
   (\<forall>N P. Op_parse N P ''?A:1:2,B'' = Inr None)"
  using unknown_sigil_undefined [where kind = "CHR ''?''" and rest = "''A:1:2,B''"]
  by simp

section \<open>Projections\<close>

text \<open>
  C6: \<^verbatim>\<open>toJSON()\<close> of a new Sequence at replica A is \<^verbatim>\<open>{r: "A", d: [[MIN, null],
  [MAX, null]]}\<close>: the list \<^verbatim>\<open>d\<close> holds the two sentinel atoms, which are not user
  values; \<^verbatim>\<open>toJSON\<close> maps over the whole storage.
\<close>

theorem toJSON_lists_sentinels:
  "Sequence_toJSON T (Sequence_new exampleGenerator 0 ''A'') =
     (''A'', [(T Ident_MIN, Null), (T Ident_MAX, Null)])"
  by (simp add: Sequence_toJSON_def ArrayStorage_map_def Sequence_new_storage)
    (simp add: Sequence_new_def exampleGenerator_def)

section \<open>Applying operations\<close>

text \<open>
  C8: \<^verbatim>\<open>apply(op)\<close> dispatches on \<^verbatim>\<open>op.kind\<close>. For the kind Insert it calls
  \<^verbatim>\<open>storage.add(op.id, op.value)\<close> and for the kind Remove
  \<^verbatim>\<open>storage.remove(op.id)\<close>, the sequence then holding the storage the call leaves;
  for every other kind it raises an error that names the kind and changes nothing.
\<close>

theorem apply_dispatch:
  "(op_kind op = OpKind_Insert \<longrightarrow>
      Sequence_apply s op =
        (case Storage_add (storage s) (op_id op) (op_value op) of
           Inl e \<Rightarrow> (Inl e, s)
         | Inr atoms \<Rightarrow> (Inr (), s\<lparr>storage := atoms\<rparr>))) \<and>
   (op_kind op = OpKind_Remove \<longrightarrow>
      Sequence_apply s op =
        (case Storage_remove (storage s) (op_id op) of
           Inl e \<Rightarrow> (Inl e, s)
         | Inr atoms \<Rightarrow> (Inr (), s\<lparr>storage := atoms\<rparr>))) \<and>
   (op_kind op \<noteq> OpKind_Insert \<and> op_kind op \<noteq> OpKind_Remove \<longrightarrow>
      Sequence_apply s op = (Inl (UnknownOpKind (op_kind op)), s))"
  by (simp add: Sequence_apply_def OpKind_Insert_def OpKind_Remove_def)

theorem apply_dispatch_witness:
  "op_kind (InsertOp_new (JStr ''B'') (JNum 1) (JIdent [(7, ''B'')]) (JStr ''x'')) = OpKind_Insert \<and>
   Sequence_apply (Sequence_new exampleGenerator 0 ''A'')
       (InsertOp_new (JStr ''B'') (JNum 1) (JIdent [(7, ''B'')]) (JStr ''x'')) =
     (Inr (), (Sequence_new exampleGenerator 0 ''A'')
        \<lparr>storage := [\<lparr>atom_id = Ident_MIN, atom_value = Null\<rparr>,
                     \<lparr>atom_id = [(7, ''B'')], atom_value = JStr ''x''\<rparr>,
                     \<lparr>atom_id = Ident_MAX, atom_value = Null\<rparr>]\<rparr>) \<and>
   op_kind (RemoveOp_new (JStr ''B'') (JNum 2) (JIdent [(7, ''B'')])) = OpKind_Remove \<and>
   Sequence_apply
       ((Sequence_new exampleGenerator 0 ''A'')
          \<lparr>storage := [\<lparr>atom_id = Ident_MIN, atom_value = Null\<rparr>,
                       \<lparr>atom_id = [(7, ''B'')], atom_value = JStr ''x''\<rparr>,
                       \<lparr>atom_id = Ident_MAX, atom_value = Null\<rparr>]\<rparr>)
       (RemoveOp_new (JStr ''B'') (JNum 2) (JIdent [(7, ''B'')])) =
     (Inr (), (Sequence_new exampleGenerator 0 ''A'')
        \<lparr>storage := [\<lparr>atom_id = Ident_MIN, atom_value = Null\<rparr>,
                     \<lparr>atom_id = Ident_MAX, atom_value = Null\<rparr>]\<rparr>) \<and>
   JNum 3 \<noteq> OpKind_Insert \<and> JNum 3 \<noteq> OpKind_Remove \<and>
   Sequence_apply (Sequence_new exampleGenerator 0 ''A'')
       \<lparr>op_kind = JNum 3, op_replica = JStr ''B'', op_time = JNum 3,
        op_id = JIdent [(7, ''B'')], op_value = JStr ''x''\<rparr> =
     (Inl (UnknownOpKind (JNum 3)), Sequence_new exampleGenerator 0 ''A'')"
proof -
  let ?s = "Sequence_new exampleGenerator 0 ''A''"
  let ?ins = "InsertOp_new (JStr ''B'') (JNum 1) (JIdent [(7, ''B'')]) (JStr ''x'')"
  let ?rem = "RemoveOp_new (JStr ''B'') (JNum 2) (JIdent [(7, ''B'')])"
  let ?other = "\<lparr>op_kind = JNum 3, op_replica = JStr ''B'', op_time = JNum 3,
        op_id = JIdent [(7, ''B'')], op_value = JStr ''x''\<rparr>"
  let ?atoms = "[\<lparr>atom_id = Ident_MIN, atom_value = Null\<rparr>,
                     \<lparr>atom_id = [(7, ''B'')], atom_value = JStr ''x''\<rparr>,
                     \<lparr>atom_id = Ident_MAX, atom_value = Null\<rparr>]"
  have kinds: "op_kind ?ins = OpKind_Insert" "op_kind ?rem = OpKind_Remove"
    "JNum 3 \<noteq> OpKind_Insert" "JNum 3 \<noteq> OpKind_Remove"
    by (simp_all add: InsertOp_new_def RemoveOp_new_def OpKind_Insert_def OpKind_Remove_def)
  have "Sequence_apply ?s ?ins = (Inr (), ?s\<lparr>storage := ?atoms\<rparr>)"
    using apply_dispatch [of ?ins ?s] kinds
    by (simp add: InsertOp_new_def Sequence_new_storage ArrayStorage_add_def
        Ident_MIN_def Ident_MAX_def)
  moreover have "Sequence_apply (?s\<lparr>storage := ?atoms\<rparr>) ?rem =
      (Inr (), ?s\<lparr>storage := [\<lparr>atom_id = Ident_MIN, atom_value = Null\<rparr>,
                     \<lparr>atom_id = Ident_MAX, atom_value = Null\<rparr>]\<rparr>)"
    using apply_dispatch [of ?rem "?s\<lparr>storage := ?atoms\<rparr>"] kinds
    by (simp add: RemoveOp_new_def ArrayStorage_remove_def Ident_MIN_def Ident_MAX_def)
  moreover have "Sequence_apply ?s ?other = (Inl (UnknownOpKind (JNum 3)), ?s)"
    using apply_dispatch [of ?other ?s] kinds by simp
  ultimately show ?thesis using kinds by simp
qed

section \<open>Frame of apply\<close>

text \<open>
  C10: \<^verbatim>\<open>apply(op)\<close> changes nothing but the storage: the replica id, \<^verbatim>\<open>maxDepth\<close> (so
  the value of \<^verbatim>\<open>depth()\<close>) and the generator are the same after every call, whatever
  the operation, an InsertOp with a deeper identifier included.
\<close>

theorem apply_frame:
  "replica (snd (Sequence_apply s op)) = replica s \<and>
   maxDepth (snd (Sequence_apply s op)) = maxDepth s \<and>
   Sequence_depth (snd (Sequence_apply s op)) = Sequence_depth s \<and>
   idGenerator (snd (Sequence_apply s op)) = idGenerator s \<and>
   snd (Sequence_apply s op) = s\<lparr>storage := storage (snd (Sequence_apply s op))\<rparr>"
  by (simp add: Sequence_apply_def Sequence_depth_def split: sum.splits)

end
